theory Spec2Isabelle
  imports Main
begin

section \<open>Python values used by bot.py\<close>

text \<open>
  A Python \<open>str\<close> is a sequence of Unicode code points, so slicing and \<open>len\<close> count code
  points. It is modelled as the list of its code points. \<open>lit\<close> turns an ASCII literal of
  the source into that list; the non-ASCII characters of the source's literals (emoji,
  bullets) are written by their code points.

  Identifiers that the program never computes from input (the keys of \<open>user_data\<close> and of
  the logged \<open>data\<close> dictionaries, the action names) are kept as Isabelle strings.
\<close>

type_synonym pystr = "nat list"

definition lit :: "string \<Rightarrow> pystr" where
  "lit cs = map of_char cs"

text \<open>The code points for which \<open>str.isspace\<close> holds: what \<open>str.strip()\<close> removes.\<close>

definition isspace :: "nat \<Rightarrow> bool" where
  "isspace c \<longleftrightarrow>
     (9 \<le> c \<and> c \<le> 13) \<or> (28 \<le> c \<and> c \<le> 32) \<or> c = 133 \<or> c = 160 \<or> c = 5760 \<or>
     (8192 \<le> c \<and> c \<le> 8202) \<or> c = 8232 \<or> c = 8233 \<or> c = 8239 \<or> c = 8287 \<or> c = 12288"

definition strip :: "pystr \<Rightarrow> pystr" where
  "strip s = rev (dropWhile isspace (rev (dropWhile isspace s)))"

definition startswith :: "pystr \<Rightarrow> pystr \<Rightarrow> bool" where
  "startswith s p \<longleftrightarrow> take (length p) s = p"

text \<open>
  \<open>s.split(sep, 1)\<close> for a one-character separator: the parts before and after the first
  occurrence, or the whole string alone when there is none.
\<close>

definition split_1 :: "nat \<Rightarrow> pystr \<Rightarrow> pystr list" where
  "split_1 sep s =
     (case dropWhile (\<lambda>c. c \<noteq> sep) s of
        [] \<Rightarrow> [s]
      | _ # after \<Rightarrow> [takeWhile (\<lambda>c. c \<noteq> sep) s, after])"

datatype py_error = IndexError

text \<open>\<open>xs[i]\<close> for a non-negative index: out of range raises.\<close>

definition subscript :: "'a list \<Rightarrow> nat \<Rightarrow> py_error + 'a" where
  "subscript xs i = (if i < length xs then Inr (xs ! i) else Inl IndexError)"

text \<open>The values held in \<open>user_data\<close> and in logged data: \<open>None\<close>, booleans and strings.\<close>

datatype pyval = PNone | PBool bool | PStr pystr

fun truthy :: "pyval \<Rightarrow> bool" where
  "truthy PNone = False"
| "truthy (PBool b) = b"
| "truthy (PStr s) = (s \<noteq> [])"

text \<open>What an f-string puts for a value: \<open>str(v)\<close>.\<close>

fun format_val :: "pyval \<Rightarrow> pystr" where
  "format_val PNone = lit ''None''"
| "format_val (PBool b) = (if b then lit ''True'' else lit ''False'')"
| "format_val (PStr s) = s"

type_synonym pydict = "(string \<times> pyval) list"

text \<open>\<open>context.user_data\<close>: the dictionary the framework keeps for one user.\<close>

type_synonym user_data = "string \<rightharpoonup> pyval"

text \<open>\<open>d.pop(key, default)\<close>: the value read, and the dictionary without the key.\<close>

definition pop_default :: "user_data \<Rightarrow> string \<Rightarrow> pyval \<Rightarrow> pyval \<times> user_data" where
  "pop_default d k dflt = ((case d k of None \<Rightarrow> dflt | Some v \<Rightarrow> v), d(k := None))"

section \<open>External collaborators\<close>

text \<open>
  The parsed JSON body of the geolocation reply. A number is kept as the text \<open>str()\<close>
  gives for it. An object is the list of its members; the first binding of a key is the
  one the parsed dictionary holds.
\<close>

datatype json =
    JNull
  | JBool bool
  | JNum pystr
  | JStr pystr
  | JArr "json list"
  | JObj "(pystr \<times> json) list"

text \<open>An entry pushed to \<open>interactions\<close>. Its \<open>timestamp\<close> field is the wall clock at the
  call and is not part of the model.\<close>

record entry =
  user_id :: int
  action :: string
  data :: pydict

text \<open>
  Everything outside the program that a handler's result depends on. An exception of a
  collaborator is the value \<open>Inl\<close> (or \<open>Some\<close>) of its \<open>str(e)\<close>.
  \<^item> \<open>firebase_initialized\<close>: the module-level flag set at import (lines 32--43).
  \<^item> \<open>push\<close>: \<open>root_ref.child('interactions').push(entry)\<close>; \<open>Some e\<close> when it raises.
  \<^item> \<open>generate_content\<close>: lines 65 and 70--71 for a prompt: building the model, the
    request, and reading \<open>response.text\<close>; \<open>Inl e\<close> when any of them raises.
  \<^item> \<open>requests_get_json\<close>: \<open>requests.get(url).json()\<close>; \<open>Inl e\<close> when the transport or the
    parsing raises.
  \<^item> \<open>str_title\<close>: \<open>str.title()\<close>, whose casing tables are Unicode's.
  \<^item> \<open>type_error_text\<close>: \<open>str(e)\<close> of the \<open>TypeError\<close> raised by subscripting a JSON value
    that is not an object with a string.
  \<^item> \<open>json_repr\<close>: \<open>str(v)\<close> of a JSON array or object.
\<close>

record env =
  firebase_initialized :: bool
  push :: "entry \<Rightarrow> pystr option"
  generate_content :: "pystr \<Rightarrow> pystr + pystr"
  requests_get_json :: "pystr \<Rightarrow> pystr + json"
  str_title :: "pystr \<Rightarrow> pystr"
  type_error_text :: "json \<Rightarrow> pystr"
  json_repr :: "json \<Rightarrow> pystr"

section \<open>Effects\<close>

text \<open>
  A handler's run is recorded as the list of its effects in program order: the calls to
  the chat transport, to the log store, to the console and to the backends, and the
  writes to \<open>user_data\<close>. The chat transport and the console are taken to accept every
  call: no handler catches a fault of theirs, which would end the handler at that call and
  go to \<open>error_handler\<close>. The faults that the source does catch (log store, FAQ backend,
  geolocation) are branches of the model.
\<close>

datatype button = InlineKeyboardButton pystr pystr

type_synonym markup = "button list list"

text \<open>What \<open>print\<close> is called with; the lines are kept by their parts, not formatted.\<close>

datatype console_line =
    LogLine int string pydict
  | LoggingError pystr
  | GeminiFailed pystr

datatype effect =
    Answer
  | SendAction pystr
  | EditMessageText pystr "pystr option" "markup option"
  | ReplyText pystr "pystr option" "markup option"
  | Push entry
  | Print console_line
  | GeminiRequest pystr
  | HttpGet pystr
  | SetItem string pyval
  | Pop string

section \<open>log_interaction (lines 46--60)\<close>

text \<open>\<open>data or {}\<close>: \<open>None\<close> and the empty dictionary both give the empty dictionary.\<close>

definition or_empty :: "pydict option \<Rightarrow> pydict" where
  "or_empty d = (case d of None \<Rightarrow> [] | Some kvs \<Rightarrow> kvs)"

definition log_interaction :: "env \<Rightarrow> int \<Rightarrow> string \<Rightarrow> pydict option \<Rightarrow> effect list" where
  "log_interaction e uid act d =
     (if \<not> firebase_initialized e then [Print (LogLine uid act (or_empty d))]
      else
        (let entry = \<lparr>user_id = uid, action = act, data = or_empty d\<rparr> in
         case push e entry of
           None \<Rightarrow> [Push entry]
         | Some err \<Rightarrow> [Print (LoggingError err)]))"

section \<open>ask_gemini (lines 63--74)\<close>

definition faq_prompt :: "pystr \<Rightarrow> pyval \<Rightarrow> pystr" where
  "faq_prompt question topic =
     (if truthy topic
      then lit ''Please answer this question about '' @ format_val topic @
           lit '' laws and regulations in India:'' @ [10, 10] @ question
      else question)"

definition faq_unavailable :: "pystr \<Rightarrow> pystr" where
  "faq_unavailable err =
     [0x2757, 0xFE0F] @ lit '' Sorry, FAQ service is temporarily unavailable. Error: '' @
     take 100 err @ lit ''...''"

text \<open>The returned string, and the effects of the call.\<close>

definition ask_gemini :: "env \<Rightarrow> pystr \<Rightarrow> pyval \<Rightarrow> pystr \<times> effect list" where
  "ask_gemini e question topic =
     (let prompt = faq_prompt question topic in
      case generate_content e prompt of
        Inr text \<Rightarrow> (strip text, [GeminiRequest prompt])
      | Inl err \<Rightarrow> (faq_unavailable err, [GeminiRequest prompt, Print (GeminiFailed err)]))"

section \<open>show_main_menu and start (lines 77--103)\<close>

definition main_menu_text :: pystr where
  "main_menu_text = [0x1F46E] @ lit '' *Crime Assist Bot*'' @ [10] @ lit ''Select an option:''"

definition main_menu_buttons :: markup where
  "main_menu_buttons =
     [[InlineKeyboardButton ([0x1F4DA] @ lit '' FAQs'') (lit ''menu_faq'')],
      [InlineKeyboardButton ([0x1F6E0, 0xFE0F] @ lit '' Tools'') (lit ''menu_tools'')],
      [InlineKeyboardButton ([0x1F6A8] @ lit '' Emergency'') (lit ''menu_emergency'')]]"

text \<open>The argument says whether \<open>update.callback_query\<close> is set.\<close>

definition show_main_menu :: "bool \<Rightarrow> effect list" where
  "show_main_menu has_callback_query =
     (if has_callback_query
      then [EditMessageText main_menu_text (Some (lit ''Markdown'')) (Some main_menu_buttons)]
      else [ReplyText main_menu_text (Some (lit ''Markdown'')) (Some main_menu_buttons)])"

definition start :: "env \<Rightarrow> int \<Rightarrow> effect list" where
  "start e uid = log_interaction e uid ''start'' None @ show_main_menu False"

section \<open>button_router (lines 106--169)\<close>

text \<open>
  What a handler leaves behind: the user's dictionary, the effects in program order, and
  the exception it ended with, if any.
\<close>

record outcome =
  new_user_data :: user_data
  effects :: "effect list"
  raised :: "py_error option"

definition back_button :: "button list" where
  "back_button = [InlineKeyboardButton ([0x25C0, 0xFE0F] @ lit '' Back'') (lit ''back_to_main'')]"

definition faq_menu :: effect where
  "faq_menu =
     EditMessageText ([0x2753] @ lit '' *FAQs Menu*'' @ [10] @ lit ''Choose a topic:'')
       (Some (lit ''Markdown''))
       (Some [[InlineKeyboardButton (lit ''Cybercrime'') (lit ''faq_cyber'')],
              [InlineKeyboardButton (lit ''Fraud'') (lit ''faq_fraud'')],
              [InlineKeyboardButton (lit ''IPC'') (lit ''faq_ipc'')],
              back_button])"

definition faq_question_prompt :: "env \<Rightarrow> pystr \<Rightarrow> effect" where
  "faq_question_prompt e topic =
     EditMessageText
       ([0x1F4AC] @ lit '' *'' @ str_title e topic @ lit '' FAQ*'' @ [10] @
        lit ''Please type your question:'')
       (Some (lit ''Markdown'')) None"

definition tools_menu :: effect where
  "tools_menu =
     EditMessageText ([0x1F6E0, 0xFE0F] @ lit '' *Tools Menu*'' @ [10] @ lit ''Choose a tool:'')
       (Some (lit ''Markdown''))
       (Some [[InlineKeyboardButton (lit ''IP Lookup'') (lit ''tool_ip'')],
              [InlineKeyboardButton (lit ''Hash Check'') (lit ''tool_hash'')],
              back_button])"

definition emergency_menu :: effect where
  "emergency_menu =
     EditMessageText
       ([0x1F6A8] @ lit '' *Emergency Contacts*'' @ [10] @
        [0x2022] @ lit '' Police: 100'' @ [10] @
        [0x2022] @ lit '' Women's Helpline: 1091'' @ [10] @
        [0x2022] @ lit '' Cyber Crime: 1930'' @ [10] @
        [0x2022] @ lit '' Ambulance: 102'')
       (Some (lit ''Markdown''))
       (Some [[InlineKeyboardButton ([0x25C0, 0xFE0F] @ lit '' Back to Main Menu'')
                 (lit ''back_to_main'')]])"

definition button_router :: "env \<Rightarrow> int \<Rightarrow> pystr \<Rightarrow> user_data \<Rightarrow> outcome" where
  "button_router e uid choice ud =
     (let logged = Answer # log_interaction e uid ''button_click'' (Some [(''choice'', PStr choice)])
      in
      if choice = lit ''menu_faq'' then
        \<lparr>new_user_data = ud, effects = logged @ [faq_menu], raised = None\<rparr>
      else if startswith choice (lit ''faq_'') then
        (case subscript (split_1 95 choice) 1 of
           Inl err \<Rightarrow> \<lparr>new_user_data = ud, effects = logged, raised = Some err\<rparr>
         | Inr topic \<Rightarrow>
             \<lparr>new_user_data = ud(''faq_topic'' \<mapsto> PStr topic),
              effects = logged @ [SetItem ''faq_topic'' (PStr topic), faq_question_prompt e topic],
              raised = None\<rparr>)
      else if choice = lit ''menu_tools'' then
        \<lparr>new_user_data = ud, effects = logged @ [tools_menu], raised = None\<rparr>
      else if choice = lit ''tool_ip'' then
        \<lparr>new_user_data = ud(''awaiting_ip'' \<mapsto> PBool True),
         effects = logged @
           [SetItem ''awaiting_ip'' (PBool True),
            EditMessageText ([0x1F50E] @ lit '' Please send an IP address:'') None None],
         raised = None\<rparr>
      else if choice = lit ''tool_hash'' then
        \<lparr>new_user_data = ud(''awaiting_hash'' \<mapsto> PBool True),
         effects = logged @
           [SetItem ''awaiting_hash'' (PBool True),
            EditMessageText ([0x1F511] @ lit '' Please send a file hash:'') None None],
         raised = None\<rparr>
      else if choice = lit ''menu_emergency'' then
        \<lparr>new_user_data = ud, effects = logged @ [emergency_menu], raised = None\<rparr>
      else if choice = lit ''back_to_main'' then
        \<lparr>new_user_data = ud, effects = logged @ show_main_menu True, raised = None\<rparr>
      else
        \<lparr>new_user_data = ud, effects = logged, raised = None\<rparr>)"

section \<open>handle_text (lines 171--219)\<close>

subsection \<open>The geolocation lookup (lines 191--199)\<close>

definition try_then :: "'e + 'a \<Rightarrow> ('a \<Rightarrow> 'e + 'b) \<Rightarrow> 'e + 'b" where
  "try_then r f = (case r of Inl err \<Rightarrow> Inl err | Inr v \<Rightarrow> f v)"

text \<open>
  \<open>res[key]\<close> for a string key: the member of an object, \<open>KeyError\<close> (whose text is the
  quoted key) when it has none, \<open>TypeError\<close> for any other JSON value.
\<close>

definition getitem :: "env \<Rightarrow> json \<Rightarrow> string \<Rightarrow> pystr + json" where
  "getitem e res key =
     (case res of
        JObj members \<Rightarrow>
          (case map_of members (lit key) of
             Some v \<Rightarrow> Inr v
           | None \<Rightarrow> Inl ([39] @ lit key @ [39]))
      | _ \<Rightarrow> Inl (type_error_text e res))"

definition format_json :: "env \<Rightarrow> json \<Rightarrow> pystr" where
  "format_json e v =
     (case v of
        JStr s \<Rightarrow> s
      | JNum t \<Rightarrow> t
      | JNull \<Rightarrow> lit ''None''
      | JBool b \<Rightarrow> (if b then lit ''True'' else lit ''False'')
      | _ \<Rightarrow> json_repr e v)"

definition ip_success :: "pystr \<Rightarrow> pystr \<Rightarrow> pystr \<Rightarrow> pystr \<Rightarrow> pystr \<Rightarrow> pystr" where
  "ip_success query city region country isp =
     [0x1F310] @ lit '' IP: '' @ query @ [10] @ lit ''City: '' @ city @ [10] @
     lit ''Region: '' @ region @ [10] @ lit ''Country: '' @ country @ [10] @
     lit ''ISP: '' @ isp"

definition ip_error :: "pystr \<Rightarrow> pystr" where
  "ip_error message = [0x26A0, 0xFE0F] @ lit '' Error: '' @ message"

definition ip_failed :: "pystr \<Rightarrow> pystr" where
  "ip_failed err = [0x274C] @ lit '' Failed to fetch IP info: '' @ err"

text \<open>The body of the \<open>try\<close> after the request: \<open>Inl\<close> is the exception that leaves it.\<close>

definition ip_result :: "env \<Rightarrow> json \<Rightarrow> pystr + pystr" where
  "ip_result e res =
     try_then (getitem e res ''status'') (\<lambda>status.
       if status = JStr (lit ''success'') then
         try_then (getitem e res ''query'') (\<lambda>query.
         try_then (getitem e res ''city'') (\<lambda>city.
         try_then (getitem e res ''regionName'') (\<lambda>region.
         try_then (getitem e res ''country'') (\<lambda>country.
         try_then (getitem e res ''isp'') (\<lambda>isp.
           Inr (ip_success (format_json e query) (format_json e city) (format_json e region)
                  (format_json e country) (format_json e isp)))))))
       else
         try_then (getitem e res ''message'') (\<lambda>message. Inr (ip_error (format_json e message))))"

definition ip_api :: "pystr \<Rightarrow> pystr" where
  "ip_api text = lit ''http://ip-api.com/json/'' @ text"

definition ip_lookup :: "env \<Rightarrow> pystr \<Rightarrow> pystr \<times> effect list" where
  "ip_lookup e text =
     ((case try_then (requests_get_json e (ip_api text)) (ip_result e) of
         Inr result \<Rightarrow> result
       | Inl err \<Rightarrow> ip_failed err),
      [HttpGet (ip_api text)])"

subsection \<open>The four paths\<close>

definition back_to_faqs :: markup where
  "back_to_faqs = [[InlineKeyboardButton ([0x1F4DA] @ lit '' Back to FAQs'') (lit ''menu_faq'')]]"

definition back_to_tools :: markup where
  "back_to_tools =
     [[InlineKeyboardButton ([0x1F6E0, 0xFE0F] @ lit '' Back to Tools'') (lit ''menu_tools'')]]"

definition to_main_menu :: markup where
  "to_main_menu = [[InlineKeyboardButton ([0x1F3E0] @ lit '' Main Menu'') (lit ''back_to_main'')]]"

text \<open>Lines 178--185, after \<open>faq_topic\<close> has been popped.\<close>

definition faq_path :: "env \<Rightarrow> int \<Rightarrow> pystr \<Rightarrow> pyval \<Rightarrow> effect list" where
  "faq_path e uid text topic =
     (let answer = ask_gemini e text topic in
      log_interaction e uid ''faq_question'' (Some [(''topic'', topic), (''question'', PStr text)]) @
      [ReplyText ([0x1F50D] @ lit '' Searching for answer...'') None None] @
      snd answer @
      log_interaction e uid ''faq_answer''
        (Some [(''topic'', topic), (''answer'', PStr (fst answer))]) @
      [ReplyText (fst answer) None (Some back_to_faqs)])"

text \<open>Lines 189--203, after \<open>awaiting_ip\<close> has been popped.\<close>

definition ip_path :: "env \<Rightarrow> int \<Rightarrow> pystr \<Rightarrow> effect list" where
  "ip_path e uid text =
     (let result = ip_lookup e text in
      log_interaction e uid ''ip_query'' (Some [(''ip'', PStr text)]) @
      snd result @
      log_interaction e uid ''ip_result'' (Some [(''result'', PStr (fst result))]) @
      [ReplyText (fst result) None (Some back_to_tools)])"

definition hash_dummy :: pystr where
  "hash_dummy = lit ''File hash check: No known threats found (dummy).''"

text \<open>Lines 207--211, after \<open>awaiting_hash\<close> has been popped.\<close>

definition hash_path :: "env \<Rightarrow> int \<Rightarrow> pystr \<Rightarrow> effect list" where
  "hash_path e uid text =
     log_interaction e uid ''hash_query'' (Some [(''hash'', PStr text)]) @
     log_interaction e uid ''hash_result'' (Some [(''result'', PStr hash_dummy)]) @
     [ReplyText hash_dummy None (Some back_to_tools)]"

text \<open>Lines 214--219.\<close>

definition general_path :: "env \<Rightarrow> int \<Rightarrow> pystr \<Rightarrow> effect list" where
  "general_path e uid text =
     (let answer = ask_gemini e text PNone in
      log_interaction e uid ''general_question'' (Some [(''question'', PStr text)]) @
      [ReplyText ([0x1F50D] @ lit '' Looking for an answer...'') None None] @
      snd answer @
      log_interaction e uid ''general_answer'' (Some [(''answer'', PStr (fst answer))]) @
      [ReplyText (fst answer) None (Some to_main_menu)])"

subsection \<open>The handler\<close>

definition handle_text :: "env \<Rightarrow> int \<Rightarrow> pystr \<Rightarrow> user_data \<Rightarrow> outcome" where
  "handle_text e uid message_text ud =
     (let text = strip message_text; typing = SendAction (lit ''typing'') in
      case ud ''faq_topic'' of
        Some topic \<Rightarrow>
          \<lparr>new_user_data = ud(''faq_topic'' := None),
           effects = typing # Pop ''faq_topic'' # faq_path e uid text topic,
           raised = None\<rparr>
      | None \<Rightarrow>
          (let ip = pop_default ud ''awaiting_ip'' (PBool False) in
           if truthy (fst ip) then
             \<lparr>new_user_data = snd ip,
              effects = typing # Pop ''awaiting_ip'' # ip_path e uid text,
              raised = None\<rparr>
           else
             (let hash = pop_default (snd ip) ''awaiting_hash'' (PBool False) in
              if truthy (fst hash) then
                \<lparr>new_user_data = snd hash,
                 effects = typing # Pop ''awaiting_ip'' # Pop ''awaiting_hash'' #
                           hash_path e uid text,
                 raised = None\<rparr>
              else
                \<lparr>new_user_data = snd hash,
                 effects = typing # Pop ''awaiting_ip'' # Pop ''awaiting_hash'' #
                           general_path e uid text,
                 raised = None\<rparr>)))"

section \<open>The application (lines 237--241)\<close>

datatype event = StartCommand int | CallbackQuery int pystr | TextMessage int pystr

text \<open>
  The three handlers that \<open>main\<close> registers, by the kind of update: the \<open>/start\<close>
  command, a callback query with its token, and a text message that is not a command.
  The framework's \<open>user_data\<close> is one dictionary per user id, empty until written; a
  handler is given the dictionary of the update's user and no other. What a handler wrote
  stays written whether or not it ended with an exception; \<open>error_handler\<close> (lines
  221--225), which only prints and logs, is not part of the model.
\<close>

type_synonym store = "int \<Rightarrow> user_data"

definition initial_store :: store where
  "initial_store = (\<lambda>uid. Map.empty)"

definition dispatch :: "env \<Rightarrow> event \<Rightarrow> store \<Rightarrow> store \<times> effect list" where
  "dispatch e ev st =
     (case ev of
        StartCommand uid \<Rightarrow> (st, start e uid)
      | CallbackQuery uid choice \<Rightarrow>
          (let out = button_router e uid choice (st uid)
           in (st(uid := new_user_data out), effects out))
      | TextMessage uid text \<Rightarrow>
          (let out = handle_text e uid text (st uid)
           in (st(uid := new_user_data out), effects out)))"

fun run :: "env \<Rightarrow> event list \<Rightarrow> store \<Rightarrow> store" where
  "run e [] st = st"
| "run e (ev # evs) st = run e evs (fst (dispatch e ev st))"

section \<open>The pending flags of a user\<close>

definition pendingFaqTopic :: "user_data \<Rightarrow> pyval option" where
  "pendingFaqTopic ud = ud ''faq_topic''"

definition awaitingIp :: "user_data \<Rightarrow> bool" where
  "awaitingIp ud = truthy (fst (pop_default ud ''awaiting_ip'' (PBool False)))"

definition awaitingHash :: "user_data \<Rightarrow> bool" where
  "awaitingHash ud = truthy (fst (pop_default ud ''awaiting_hash'' (PBool False)))"

definition flags_set :: "user_data \<Rightarrow> nat" where
  "flags_set ud =
     (if pendingFaqTopic ud = None then 0 else 1) + (if awaitingIp ud then 1 else 0) +
     (if awaitingHash ud then 1 else 0)"

section \<open>Reading a run\<close>

text \<open>What a run did to the log: a pushed entry, or one of the two lines \<open>log_interaction\<close>
  prints instead.\<close>

fun is_log :: "effect \<Rightarrow> bool" where
  "is_log (Push _) = True"
| "is_log (Print (LogLine _ _ _)) = True"
| "is_log (Print (LoggingError _)) = True"
| "is_log _ = False"

text \<open>What the user sees: a message sent or edited.\<close>

fun is_render :: "effect \<Rightarrow> bool" where
  "is_render (EditMessageText _ _ _) = True"
| "is_render (ReplyText _ _ _) = True"
| "is_render _ = False"

fun is_write :: "effect \<Rightarrow> bool" where
  "is_write (SetItem _ _) = True"
| "is_write (Pop _) = True"
| "is_write _ = False"

fun is_backend_call :: "effect \<Rightarrow> bool" where
  "is_backend_call (GeminiRequest _) = True"
| "is_backend_call (HttpGet _) = True"
| "is_backend_call _ = False"

text \<open>The entries a run left in the store, in order.\<close>

fun pushed :: "effect list \<Rightarrow> entry list" where
  "pushed [] = []"
| "pushed (Push x # effs) = x # pushed effs"
| "pushed (_ # effs) = pushed effs"

text \<open>Lines 47 and 58: \<open>log_interaction\<close> appends an entry when the store was initialized
  and the push of that entry does not raise.\<close>

definition accepted :: "env \<Rightarrow> entry \<Rightarrow> bool" where
  "accepted e x \<longleftrightarrow> firebase_initialized e \<and> push e x = None"

text \<open>The records a run printed in place of entries (line 48), in order.\<close>

fun log_lines :: "effect list \<Rightarrow> (int \<times> string \<times> pydict) list" where
  "log_lines [] = []"
| "log_lines (Print (LogLine uid act d) # effs) = (uid, act, d) # log_lines effs"
| "log_lines (_ # effs) = log_lines effs"

text \<open>The writes of a run, applied to a dictionary.\<close>

fun apply_write :: "user_data \<Rightarrow> effect \<Rightarrow> user_data" where
  "apply_write ud (SetItem k v) = ud(k \<mapsto> v)"
| "apply_write ud (Pop k) = ud(k := None)"
| "apply_write ud _ = ud"

definition replay :: "effect list \<Rightarrow> user_data \<Rightarrow> user_data" where
  "replay effs ud = foldl apply_write ud effs"

text \<open>The tokens for which \<open>button_router\<close> has a branch.\<close>

definition recognized :: "pystr \<Rightarrow> bool" where
  "recognized choice \<longleftrightarrow>
     choice = lit ''menu_faq'' \<or> startswith choice (lit ''faq_'') \<or> choice = lit ''menu_tools'' \<or>
     choice = lit ''tool_ip'' \<or> choice = lit ''tool_hash'' \<or> choice = lit ''menu_emergency'' \<or>
     choice = lit ''back_to_main''"

text \<open>Lines 108--111: what \<open>button_router\<close> does before it looks at the token.\<close>

definition logged :: "env \<Rightarrow> int \<Rightarrow> pystr \<Rightarrow> effect list" where
  "logged e uid choice =
     Answer # log_interaction e uid ''button_click'' (Some [(''choice'', PStr choice)])"

text \<open>
  The whole run of \<open>handle_text\<close> along each of its four paths, for the stripped text. The
  four differ for every argument (\<open>runs_distinct\<close> below), so an equation between the
  effects of \<open>handle_text\<close> and one of them says which path was taken.
\<close>

definition faq_run :: "env \<Rightarrow> int \<Rightarrow> pystr \<Rightarrow> pyval \<Rightarrow> effect list" where
  "faq_run e uid text topic =
     SendAction (lit ''typing'') # Pop ''faq_topic'' # faq_path e uid text topic"

definition ip_run :: "env \<Rightarrow> int \<Rightarrow> pystr \<Rightarrow> effect list" where
  "ip_run e uid text = SendAction (lit ''typing'') # Pop ''awaiting_ip'' # ip_path e uid text"

definition hash_run :: "env \<Rightarrow> int \<Rightarrow> pystr \<Rightarrow> effect list" where
  "hash_run e uid text =
     SendAction (lit ''typing'') # Pop ''awaiting_ip'' # Pop ''awaiting_hash'' # hash_path e uid text"

definition general_run :: "env \<Rightarrow> int \<Rightarrow> pystr \<Rightarrow> effect list" where
  "general_run e uid text =
     SendAction (lit ''typing'') # Pop ''awaiting_ip'' # Pop ''awaiting_hash'' #
     general_path e uid text"

subsection \<open>Three environments to run the handlers in\<close>

text \<open>No log store (the console fallback), an FAQ backend that answers, and a geolocation
  service that answers a malformed address with its \<open>fail\<close> reply.\<close>

definition console_env :: env where
  "console_env =
     \<lparr>firebase_initialized = False,
      push = (\<lambda>x. None),
      generate_content = (\<lambda>prompt. Inr (lit '' An answer. '')),
      requests_get_json = (\<lambda>url. Inr (JObj [(lit ''status'', JStr (lit ''fail'')),
                                            (lit ''message'', JStr (lit ''invalid query''))])),
      str_title = (\<lambda>s. s),
      type_error_text = (\<lambda>v. lit ''not subscriptable''),
      json_repr = (\<lambda>v. lit ''[]'')\<rparr>"

text \<open>The same with a log store that takes every entry.\<close>

definition store_env :: env where
  "store_env = console_env\<lparr>firebase_initialized := True\<rparr>"

text \<open>Every collaborator raising; the FAQ backend with an error text of 150 characters.\<close>

definition failing_env :: env where
  "failing_env =
     console_env\<lparr>firebase_initialized := True,
                 push := (\<lambda>x. Some (lit ''unavailable'')),
                 generate_content := (\<lambda>prompt. Inl (replicate 150 120)),
                 requests_get_json := (\<lambda>url. Inl (lit ''timed out''))\<rparr>"

section \<open>Facts about the handlers\<close>

text \<open>
  One lemma for each branch of \<open>button_router\<close> and of \<open>handle_text\<close>, and what the logs,
  the renders and the writes of each run are. The theorems of the last section are read
  off them.
\<close>

lemma log_interaction_cases:
  "log_interaction e uid act d = [Print (LogLine uid act (or_empty d))] \<or>
   log_interaction e uid act d = [Push \<lparr>user_id = uid, action = act, data = or_empty d\<rparr>] \<or>
   (\<exists>err. log_interaction e uid act d = [Print (LoggingError err)])"
  by (simp add: log_interaction_def Let_def split: option.split)

lemma log_interaction_length: "length (log_interaction e uid act d) = 1"
  using log_interaction_cases [of e uid act d] by auto

lemma log_interaction_is_log: "filter is_log (log_interaction e uid act d) = log_interaction e uid act d"
  using log_interaction_cases [of e uid act d] by auto

lemma log_interaction_no_render: "filter is_render (log_interaction e uid act d) = []"
  using log_interaction_cases [of e uid act d] by auto

lemma log_interaction_no_write: "filter is_write (log_interaction e uid act d) = []"
  using log_interaction_cases [of e uid act d] by auto

lemma startswith_iff: "startswith s p \<longleftrightarrow> (\<exists>r. s = p @ r)"
  unfolding startswith_def by (metis append_eq_conv_conj append_take_drop_id)

lemma faq_prefix_split:
  assumes "startswith choice (lit ''faq_'')"
  shows "split_1 95 choice = [lit ''faq'', drop 4 choice]"
proof -
  from assms obtain r where c: "choice = lit ''faq_'' @ r"
    unfolding startswith_iff by blast
  show ?thesis by (simp add: c split_1_def lit_def)
qed

lemma faq_prefix_topic:
  "startswith choice (lit ''faq_'') \<Longrightarrow> subscript (split_1 95 choice) (Suc 0) = Inr (drop 4 choice)"
  by (simp add: faq_prefix_split subscript_def)

lemma faq_prefix_not_fixed:
  assumes "startswith choice (lit ''faq_'')"
  shows "choice \<noteq> lit ''menu_faq''"
proof -
  from assms obtain r where c: "choice = lit ''faq_'' @ r"
    unfolding startswith_iff by blast
  show ?thesis by (simp add: c lit_def)
qed

lemma router_menu_faq:
  "button_router e uid (lit ''menu_faq'') ud =
     \<lparr>new_user_data = ud, effects = logged e uid (lit ''menu_faq'') @ [faq_menu], raised = None\<rparr>"
  by (simp add: button_router_def logged_def)

lemma router_faq:
  "startswith choice (lit ''faq_'') \<Longrightarrow>
   button_router e uid choice ud =
     \<lparr>new_user_data = ud(''faq_topic'' \<mapsto> PStr (drop 4 choice)),
      effects = logged e uid choice @
        [SetItem ''faq_topic'' (PStr (drop 4 choice)), faq_question_prompt e (drop 4 choice)],
      raised = None\<rparr>"
  by (simp add: button_router_def logged_def faq_prefix_topic faq_prefix_not_fixed Let_def)

lemma router_menu_tools:
  "button_router e uid (lit ''menu_tools'') ud =
     \<lparr>new_user_data = ud, effects = logged e uid (lit ''menu_tools'') @ [tools_menu], raised = None\<rparr>"
  by (simp add: button_router_def logged_def startswith_def lit_def)

lemma router_tool_ip:
  "button_router e uid (lit ''tool_ip'') ud =
     \<lparr>new_user_data = ud(''awaiting_ip'' \<mapsto> PBool True),
      effects = logged e uid (lit ''tool_ip'') @
        [SetItem ''awaiting_ip'' (PBool True),
         EditMessageText ([0x1F50E] @ lit '' Please send an IP address:'') None None],
      raised = None\<rparr>"
  by (simp add: button_router_def logged_def startswith_def lit_def)

lemma router_tool_hash:
  "button_router e uid (lit ''tool_hash'') ud =
     \<lparr>new_user_data = ud(''awaiting_hash'' \<mapsto> PBool True),
      effects = logged e uid (lit ''tool_hash'') @
        [SetItem ''awaiting_hash'' (PBool True),
         EditMessageText ([0x1F511] @ lit '' Please send a file hash:'') None None],
      raised = None\<rparr>"
  by (simp add: button_router_def logged_def startswith_def lit_def)

lemma router_menu_emergency:
  "button_router e uid (lit ''menu_emergency'') ud =
     \<lparr>new_user_data = ud, effects = logged e uid (lit ''menu_emergency'') @ [emergency_menu],
      raised = None\<rparr>"
  by (simp add: button_router_def logged_def startswith_def lit_def)

lemma router_back_to_main:
  "button_router e uid (lit ''back_to_main'') ud =
     \<lparr>new_user_data = ud, effects = logged e uid (lit ''back_to_main'') @ show_main_menu True,
      raised = None\<rparr>"
  by (simp add: button_router_def logged_def startswith_def lit_def)

lemma router_unrecognized:
  "\<not> recognized choice \<Longrightarrow>
   button_router e uid choice ud =
     \<lparr>new_user_data = ud, effects = logged e uid choice, raised = None\<rparr>"
  by (simp add: button_router_def logged_def recognized_def)

lemma router_cases:
  obtains "choice = lit ''menu_faq''" | "startswith choice (lit ''faq_'')"
    | "choice = lit ''menu_tools''" | "choice = lit ''tool_ip''" | "choice = lit ''tool_hash''"
    | "choice = lit ''menu_emergency''" | "choice = lit ''back_to_main''"
    | "\<not> recognized choice"
  unfolding recognized_def by blast

lemma log_interaction_not_pop: "log_interaction e uid act d @ rest \<noteq> Pop k # rest'"
  using log_interaction_cases [of e uid act d] by auto

lemma general_not_faq: "general_run e uid text \<noteq> faq_run e uid text' topic"
  by (simp add: general_run_def faq_run_def)

lemma general_not_ip: "general_run e uid text \<noteq> ip_run e uid text'"
  using log_interaction_not_pop [of e uid "''ip_query''"]
  by (simp add: general_run_def ip_run_def ip_path_def Let_def) metis

lemma general_not_hash: "general_run e uid text \<noteq> hash_run e uid text'"
proof
  assume "general_run e uid text = hash_run e uid text'"
  then have "last (general_run e uid text) = last (hash_run e uid text')" by simp
  then show False
    by (simp add: general_run_def hash_run_def general_path_def hash_path_def Let_def
        to_main_menu_def back_to_tools_def lit_def)
qed

lemma handle_text_faq:
  "ud ''faq_topic'' = Some topic \<Longrightarrow>
   handle_text e uid m ud =
     \<lparr>new_user_data = ud(''faq_topic'' := None), effects = faq_run e uid (strip m) topic,
      raised = None\<rparr>"
  by (simp add: handle_text_def faq_run_def Let_def)

lemma handle_text_ip:
  "ud ''faq_topic'' = None \<Longrightarrow> awaitingIp ud \<Longrightarrow>
   handle_text e uid m ud =
     \<lparr>new_user_data = ud(''awaiting_ip'' := None), effects = ip_run e uid (strip m),
      raised = None\<rparr>"
  by (simp add: handle_text_def ip_run_def Let_def awaitingIp_def pop_default_def)

lemma handle_text_hash:
  "ud ''faq_topic'' = None \<Longrightarrow> \<not> awaitingIp ud \<Longrightarrow> awaitingHash ud \<Longrightarrow>
   handle_text e uid m ud =
     \<lparr>new_user_data = ud(''awaiting_ip'' := None, ''awaiting_hash'' := None),
      effects = hash_run e uid (strip m), raised = None\<rparr>"
  by (simp add: handle_text_def hash_run_def Let_def awaitingIp_def awaitingHash_def
      pop_default_def)

lemma handle_text_general:
  "ud ''faq_topic'' = None \<Longrightarrow> \<not> awaitingIp ud \<Longrightarrow> \<not> awaitingHash ud \<Longrightarrow>
   handle_text e uid m ud =
     \<lparr>new_user_data = ud(''awaiting_ip'' := None, ''awaiting_hash'' := None),
      effects = general_run e uid (strip m), raised = None\<rparr>"
  by (simp add: handle_text_def general_run_def Let_def awaitingIp_def awaitingHash_def
      pop_default_def)

lemma text_cases:
  obtains topic where "ud ''faq_topic'' = Some topic"
  | "ud ''faq_topic'' = None" "awaitingIp ud"
  | "ud ''faq_topic'' = None" "\<not> awaitingIp ud" "awaitingHash ud"
  | "ud ''faq_topic'' = None" "\<not> awaitingIp ud" "\<not> awaitingHash ud"
  by (cases "ud ''faq_topic''") auto

lemma pushed_filter_log: "pushed effs = pushed (filter is_log effs)"
  by (induction effs rule: pushed.induct) simp_all

lemma ask_gemini_no_log: "filter is_log (snd (ask_gemini e q t)) = []"
  by (simp add: ask_gemini_def Let_def split: sum.split)

lemma ask_gemini_no_render: "filter is_render (snd (ask_gemini e q t)) = []"
  by (simp add: ask_gemini_def Let_def split: sum.split)

lemma ip_lookup_no_log: "filter is_log (snd (ip_lookup e text)) = []"
  by (simp add: ip_lookup_def)

lemma ip_lookup_no_render: "filter is_render (snd (ip_lookup e text)) = []"
  by (simp add: ip_lookup_def)

lemma faq_run_logs:
  "filter is_log (faq_run e uid text topic) =
     log_interaction e uid ''faq_question'' (Some [(''topic'', topic), (''question'', PStr text)]) @
     log_interaction e uid ''faq_answer''
       (Some [(''topic'', topic), (''answer'', PStr (fst (ask_gemini e text topic)))])"
  by (simp add: faq_run_def faq_path_def Let_def log_interaction_is_log ask_gemini_no_log)

lemma ip_run_logs:
  "filter is_log (ip_run e uid text) =
     log_interaction e uid ''ip_query'' (Some [(''ip'', PStr text)]) @
     log_interaction e uid ''ip_result'' (Some [(''result'', PStr (fst (ip_lookup e text)))])"
  by (simp add: ip_run_def ip_path_def Let_def log_interaction_is_log ip_lookup_no_log)

lemma hash_run_logs:
  "filter is_log (hash_run e uid text) =
     log_interaction e uid ''hash_query'' (Some [(''hash'', PStr text)]) @
     log_interaction e uid ''hash_result'' (Some [(''result'', PStr hash_dummy)])"
  by (simp add: hash_run_def hash_path_def log_interaction_is_log)

lemma general_run_logs:
  "filter is_log (general_run e uid text) =
     log_interaction e uid ''general_question'' (Some [(''question'', PStr text)]) @
     log_interaction e uid ''general_answer''
       (Some [(''answer'', PStr (fst (ask_gemini e text PNone)))])"
  by (simp add: general_run_def general_path_def Let_def log_interaction_is_log ask_gemini_no_log)

lemma faq_run_renders:
  "filter is_render (faq_run e uid text topic) =
     [ReplyText ([0x1F50D] @ lit '' Searching for answer...'') None None,
      ReplyText (fst (ask_gemini e text topic)) None (Some back_to_faqs)]"
  by (simp add: faq_run_def faq_path_def Let_def log_interaction_no_render ask_gemini_no_render)

lemma ip_run_renders:
  "filter is_render (ip_run e uid text) =
     [ReplyText (fst (ip_lookup e text)) None (Some back_to_tools)]"
  by (simp add: ip_run_def ip_path_def Let_def log_interaction_no_render ip_lookup_no_render)

lemma hash_run_renders:
  "filter is_render (hash_run e uid text) = [ReplyText hash_dummy None (Some back_to_tools)]"
  by (simp add: hash_run_def hash_path_def log_interaction_no_render)

lemma general_run_renders:
  "filter is_render (general_run e uid text) =
     [ReplyText ([0x1F50D] @ lit '' Looking for an answer...'') None None,
      ReplyText (fst (ask_gemini e text PNone)) None (Some to_main_menu)]"
  by (simp add: general_run_def general_path_def Let_def log_interaction_no_render
      ask_gemini_no_render)

lemma handle_text_renders:
  "filter is_render (effects (handle_text e uid m ud)) =
     (case pendingFaqTopic ud of
        Some topic \<Rightarrow>
          [ReplyText ([0x1F50D] @ lit '' Searching for answer...'') None None,
           ReplyText (fst (ask_gemini e (strip m) topic)) None (Some back_to_faqs)]
      | None \<Rightarrow>
          if awaitingIp ud then [ReplyText (fst (ip_lookup e (strip m))) None (Some back_to_tools)]
          else if awaitingHash ud then [ReplyText hash_dummy None (Some back_to_tools)]
          else
            [ReplyText ([0x1F50D] @ lit '' Looking for an answer...'') None None,
             ReplyText (fst (ask_gemini e (strip m) PNone)) None (Some to_main_menu)])"
  by (rule text_cases [of ud])
     (simp_all add: pendingFaqTopic_def handle_text_faq handle_text_ip handle_text_hash
        handle_text_general faq_run_renders ip_run_renders hash_run_renders general_run_renders)


lemma logged_logs:
  "filter is_log (logged e uid choice) =
     log_interaction e uid ''button_click'' (Some [(''choice'', PStr choice)])"
  by (simp add: logged_def log_interaction_is_log)


lemma router_rest_no_log:
  "filter is_log (effects (button_router e uid choice ud)) =
     log_interaction e uid ''button_click'' (Some [(''choice'', PStr choice)])"
  by (rule router_cases [of choice])
     (simp_all add: router_menu_faq router_faq router_menu_tools router_tool_ip router_tool_hash
        router_menu_emergency router_back_to_main router_unrecognized logged_logs faq_menu_def
        tools_menu_def emergency_menu_def faq_question_prompt_def show_main_menu_def)

lemma router_starts_logged:
  "take 2 (effects (button_router e uid choice ud)) = logged e uid choice"
proof -
  have l: "length (logged e uid choice) = 2"
    by (simp add: logged_def log_interaction_length)
  have "\<exists>rest. effects (button_router e uid choice ud) = logged e uid choice @ rest"
    by (rule router_cases [of choice])
       (simp_all add: router_menu_faq router_faq router_menu_tools router_tool_ip
          router_tool_hash router_menu_emergency router_back_to_main router_unrecognized)
  then obtain rest where "effects (button_router e uid choice ud) = logged e uid choice @ rest"
    by blast
  with l show ?thesis by simp
qed

lemma router_never_raises: "raised (button_router e uid choice ud) = None"
  by (rule router_cases [of choice])
     (simp_all add: router_menu_faq router_faq router_menu_tools router_tool_ip
        router_tool_hash router_menu_emergency router_back_to_main router_unrecognized)

lemma flag_simps:
  "pendingFaqTopic (ud(''faq_topic'' \<mapsto> v)) = Some v"
  "pendingFaqTopic (ud(''faq_topic'' := None)) = None"
  "pendingFaqTopic (ud(''awaiting_ip'' := x)) = pendingFaqTopic ud"
  "pendingFaqTopic (ud(''awaiting_hash'' := x)) = pendingFaqTopic ud"
  "awaitingIp (ud(''awaiting_ip'' \<mapsto> v)) = truthy v"
  "awaitingIp (ud(''awaiting_ip'' := None)) = False"
  "awaitingIp (ud(''faq_topic'' := x)) = awaitingIp ud"
  "awaitingIp (ud(''awaiting_hash'' := x)) = awaitingIp ud"
  "awaitingHash (ud(''awaiting_hash'' \<mapsto> v)) = truthy v"
  "awaitingHash (ud(''awaiting_hash'' := None)) = False"
  "awaitingHash (ud(''faq_topic'' := x)) = awaitingHash ud"
  "awaitingHash (ud(''awaiting_ip'' := x)) = awaitingHash ud"
  by (simp_all add: pendingFaqTopic_def awaitingIp_def awaitingHash_def pop_default_def)




lemma handle_text_logs:
  "filter is_log (effects (handle_text e uid m ud)) =
     (case pendingFaqTopic ud of
        Some topic \<Rightarrow>
          log_interaction e uid ''faq_question''
            (Some [(''topic'', topic), (''question'', PStr (strip m))]) @
          log_interaction e uid ''faq_answer''
            (Some [(''topic'', topic), (''answer'', PStr (fst (ask_gemini e (strip m) topic)))])
      | None \<Rightarrow>
          if awaitingIp ud then
            log_interaction e uid ''ip_query'' (Some [(''ip'', PStr (strip m))]) @
            log_interaction e uid ''ip_result''
              (Some [(''result'', PStr (fst (ip_lookup e (strip m))))])
          else if awaitingHash ud then
            log_interaction e uid ''hash_query'' (Some [(''hash'', PStr (strip m))]) @
            log_interaction e uid ''hash_result'' (Some [(''result'', PStr hash_dummy)])
          else
            log_interaction e uid ''general_question'' (Some [(''question'', PStr (strip m))]) @
            log_interaction e uid ''general_answer''
              (Some [(''answer'', PStr (fst (ask_gemini e (strip m) PNone)))]))"
  by (rule text_cases [of ud])
     (simp_all add: pendingFaqTopic_def handle_text_faq handle_text_ip handle_text_hash
        handle_text_general faq_run_logs ip_run_logs hash_run_logs general_run_logs)

lemma log_interaction_pushed:
  "firebase_initialized e \<Longrightarrow> \<forall>x. push e x = None \<Longrightarrow>
   log_interaction e uid act (Some d) = [Push \<lparr>user_id = uid, action = act, data = d\<rparr>]"
  by (simp add: log_interaction_def or_empty_def)

lemma getitem_obj:
  "map_of members (lit key) = Some v \<Longrightarrow> getitem e (JObj members) key = Inr v"
  by (simp add: getitem_def)

lemma replay_append: "replay (xs @ ys) ud = replay ys (replay xs ud)"
  by (simp add: replay_def)

lemma replay_Cons: "replay (x # xs) ud = replay xs (apply_write ud x)"
  by (simp add: replay_def)

lemma replay_Nil: "replay [] ud = ud"
  by (simp add: replay_def)

lemma replay_log: "replay (log_interaction e uid act d) ud = ud"
  using log_interaction_cases [of e uid act d] by (auto simp add: replay_def)

lemma replay_ask: "replay (snd (ask_gemini e q t)) ud = ud"
  by (simp add: ask_gemini_def Let_def replay_def split: sum.split)

lemma replay_paths:
  "replay (faq_path e uid t topic) ud = ud"
  "replay (ip_path e uid t) ud = ud"
  "replay (hash_path e uid t) ud = ud"
  "replay (general_path e uid t) ud = ud"
  by (simp_all add: faq_path_def ip_path_def hash_path_def general_path_def Let_def
      replay_append replay_Cons replay_Nil replay_log replay_ask ip_lookup_def)

lemma handle_text_writes:
  "replay (effects (handle_text e uid m ud)) ud = new_user_data (handle_text e uid m ud)"
  by (simp add: handle_text_def Let_def pop_default_def replay_Cons replay_paths
      split: option.split)

lemma log_lines_filter_log: "log_lines effs = log_lines (filter is_log effs)"
  by (induction effs rule: log_lines.induct) simp_all


lemma pushed_append: "pushed (xs @ ys) = pushed xs @ pushed ys"
  by (induction xs rule: pushed.induct) simp_all


lemma log_lines_append: "log_lines (xs @ ys) = log_lines xs @ log_lines ys"
  by (induction xs rule: log_lines.induct) simp_all


lemma pushed_log_interaction:
  "pushed (log_interaction e uid act (Some d)) =
     filter (accepted e) [\<lparr>user_id = uid, action = act, data = d\<rparr>]"
  by (simp add: log_interaction_def or_empty_def accepted_def Let_def split: option.split)


lemma log_lines_log_interaction:
  "log_lines (log_interaction e uid act (Some d)) =
     (if firebase_initialized e then [] else [(uid, act, d)])"
  by (simp add: log_interaction_def or_empty_def Let_def split: option.split)

lemma faq_not_ip: "faq_run e uid t topic \<noteq> ip_run e uid t'"
  by (simp add: faq_run_def ip_run_def)

lemma faq_not_hash: "faq_run e uid t topic \<noteq> hash_run e uid t'"
  by (simp add: faq_run_def hash_run_def)

lemma ip_not_hash: "ip_run e uid t \<noteq> hash_run e uid t'"
  using log_interaction_not_pop [of e uid "''ip_query''"]
  by (simp add: ip_run_def hash_run_def ip_path_def Let_def)

lemma runs_distinct:
  "faq_run e uid t topic \<noteq> ip_run e uid t'"
  "faq_run e uid t topic \<noteq> hash_run e uid t'"
  "faq_run e uid t topic \<noteq> general_run e uid t'"
  "ip_run e uid t \<noteq> hash_run e uid t'"
  "ip_run e uid t \<noteq> general_run e uid t'"
  "hash_run e uid t \<noteq> general_run e uid t'"
  using faq_not_ip [of e uid t topic t'] faq_not_hash [of e uid t topic t']
    general_not_faq [of e uid t' t topic] ip_not_hash [of e uid t t']
    general_not_ip [of e uid t' t] general_not_hash [of e uid t' t]
  by (simp_all add: not_sym)

lemma replay_logged: "replay (logged e uid choice) ud = ud"
  by (simp add: logged_def replay_Cons replay_log)

lemma button_router_writes:
  "replay (effects (button_router e uid choice ud)) ud =
     new_user_data (button_router e uid choice ud)"
  by (rule router_cases [of choice])
     (simp_all add: router_menu_faq router_faq router_menu_tools router_tool_ip router_tool_hash
        router_menu_emergency router_back_to_main router_unrecognized replay_append
        replay_logged replay_Cons replay_Nil faq_menu_def tools_menu_def emergency_menu_def
        faq_question_prompt_def show_main_menu_def)

lemma handle_text_never_raises: "raised (handle_text e uid m ud) = None"
  by (rule text_cases [of ud])
     (simp_all add: handle_text_faq handle_text_ip handle_text_hash handle_text_general)


lemma backend_calls:
  "filter is_backend_call (faq_run e uid t topic) = [GeminiRequest (faq_prompt t topic)]"
  "filter is_backend_call (ip_run e uid t) = [HttpGet (ip_api t)]"
  "filter is_backend_call (hash_run e uid t) = []"
  "filter is_backend_call (general_run e uid t) = [GeminiRequest t]"
proof -
  have l: "filter is_backend_call (log_interaction e uid act d) = []" for act d
    using log_interaction_cases [of e uid act d] by auto
  have g: "filter is_backend_call (snd (ask_gemini e q v)) = [GeminiRequest (faq_prompt q v)]"
    for q v
    by (simp add: ask_gemini_def Let_def split: sum.split)
  show "filter is_backend_call (faq_run e uid t topic) = [GeminiRequest (faq_prompt t topic)]"
    by (simp add: faq_run_def faq_path_def Let_def l g)
  show "filter is_backend_call (ip_run e uid t) = [HttpGet (ip_api t)]"
    by (simp add: ip_run_def ip_path_def Let_def l ip_lookup_def)
  show "filter is_backend_call (hash_run e uid t) = []"
    by (simp add: hash_run_def hash_path_def l)
  show "filter is_backend_call (general_run e uid t) = [GeminiRequest t]"
    by (simp add: general_run_def general_path_def Let_def l g faq_prompt_def)
qed

section \<open>The claims\<close>

subsection \<open>C10: every callback is logged first\<close>

text \<open>
  C10 says that for every callback event \<open>button_router\<close> appends exactly one log entry
  with action \<open>button_click\<close> carrying the raw token. \<open>log_interaction\<close> is best effort
  (lines 47--60): when the push raises, nothing is appended and the only trace of the
  call is an error line that names neither the action nor the token, the same line for
  \<open>tool_ip\<close> and for \<open>tool_hash\<close>.
\<close>

theorem button_click_lost_counterexample:
  "pushed (effects (button_router failing_env 7 (lit ''tool_ip'') Map.empty)) = [] \<and>
   filter is_log (effects (button_router failing_env 7 (lit ''tool_ip'') Map.empty)) =
     [Print (LoggingError (lit ''unavailable''))] \<and>
   filter is_log (effects (button_router failing_env 7 (lit ''tool_hash'') Map.empty)) =
     [Print (LoggingError (lit ''unavailable''))]"
proof -
  have l: "log_interaction failing_env uid act d = [Print (LoggingError (lit ''unavailable''))]"
    for uid act d
    by (simp add: log_interaction_def failing_env_def console_env_def)
  have f: "filter is_log (effects (button_router failing_env 7 c Map.empty)) =
     [Print (LoggingError (lit ''unavailable''))]" for c
    by (simp add: router_rest_no_log l)
  have p: "pushed (effects (button_router failing_env 7 (lit ''tool_ip'') Map.empty)) = []"
    by (subst pushed_filter_log) (simp add: f)
  from p f show ?thesis by simp
qed

text \<open>
  C10, amended. For every callback event, recognized or not, \<open>button_router\<close> calls
  \<open>log_interaction\<close> exactly once, with action \<open>button_click\<close> and the raw token, right
  after the acknowledgement of the callback and before any write to \<open>user_data\<close> and any
  render. The call appends that entry when the store was initialized and takes the
  push, and appends nothing otherwise; with no store it prints the same record to the
  console.
\<close>

theorem button_click_logged_first:
  "take 2 (effects (button_router e uid choice ud)) =
     Answer # log_interaction e uid ''button_click'' (Some [(''choice'', PStr choice)]) \<and>
   filter is_log (effects (button_router e uid choice ud)) =
     log_interaction e uid ''button_click'' (Some [(''choice'', PStr choice)]) \<and>
   length (log_interaction e uid ''button_click'' (Some [(''choice'', PStr choice)])) = 1 \<and>
   filter is_write (take 2 (effects (button_router e uid choice ud))) = [] \<and>
   filter is_render (take 2 (effects (button_router e uid choice ud))) = [] \<and>
   pushed (effects (button_router e uid choice ud)) =
     filter (accepted e)
       [\<lparr>user_id = uid, action = ''button_click'', data = [(''choice'', PStr choice)]\<rparr>] \<and>
   log_lines (effects (button_router e uid choice ud)) =
     (if firebase_initialized e then []
      else [(uid, ''button_click'', [(''choice'', PStr choice)])])"
proof -
  let ?log = "log_interaction e uid ''button_click'' (Some [(''choice'', PStr choice)])"
  let ?effs = "effects (button_router e uid choice ud)"
  have t: "take 2 ?effs = Answer # ?log"
    by (simp add: router_starts_logged logged_def)
  have l: "filter is_log ?effs = ?log" by (rule router_rest_no_log)
  have n: "length ?log = 1" by (rule log_interaction_length)
  have w: "filter is_write (take 2 ?effs) = []"
    by (simp add: t log_interaction_no_write)
  have r: "filter is_render (take 2 ?effs) = []"
    by (simp add: t log_interaction_no_render)
  have p: "pushed ?effs = pushed (filter is_log ?effs)" by (rule pushed_filter_log)
  have q: "log_lines ?effs = log_lines (filter is_log ?effs)" by (rule log_lines_filter_log)
  have s: "pushed ?effs =
     filter (accepted e)
       [\<lparr>user_id = uid, action = ''button_click'', data = [(''choice'', PStr choice)]\<rparr>]"
    by (simp only: p l pushed_log_interaction)
  have c: "log_lines ?effs =
     (if firebase_initialized e then []
      else [(uid, ''button_click'', [(''choice'', PStr choice)])])"
    by (simp only: q l log_lines_log_interaction)
  from t l n w r s c show ?thesis by blast
qed

theorem button_click_logged_first_witness:
  "pushed (effects (button_router store_env 7 (lit ''tool_hash'') Map.empty)) =
     [\<lparr>user_id = 7, action = ''button_click'',
       data = [(''choice'', PStr (lit ''tool_hash''))]\<rparr>] \<and>
   log_lines (effects (button_router console_env 7 (lit ''tool_hash'') Map.empty)) =
     [(7, ''button_click'', [(''choice'', PStr (lit ''tool_hash''))])]"
proof -
  have a: "accepted store_env x" "\<not> firebase_initialized console_env" for x
    by (simp_all add: accepted_def store_env_def console_env_def)
  show ?thesis
    using a button_click_logged_first [of store_env 7 "lit ''tool_hash''" Map.empty]
      button_click_logged_first [of console_env 7 "lit ''tool_hash''" Map.empty]
    by simp
qed

subsection \<open>C5: a token with no branch\<close>




subsection \<open>C4: what the user gets back\<close>




subsection \<open>C1: the pending flags are not exclusive\<close>

text \<open>
  C1 says that at every reachable state at most one of the three flags of a user is set,
  because each menu-setting operation clears the other two first. No branch of
  \<open>button_router\<close> clears anything: after \<open>tool_ip\<close> and then \<open>tool_hash\<close>, from the
  initial state, two flags of the user are set.
\<close>

theorem flags_not_exclusive_counterexample:
  "\<not> flags_set
       (run console_env [CallbackQuery 7 (lit ''tool_ip''), CallbackQuery 7 (lit ''tool_hash'')]
          initial_store 7) \<le> 1"
  by (simp add: dispatch_def router_tool_ip router_tool_hash flags_set_def flag_simps
      initial_store_def pendingFaqTopic_def)

text \<open>
  C1, amended. Each menu-setting operation (a token starting with \<open>faq_\<close>, \<open>tool_ip\<close>,
  \<open>tool_hash\<close>) sets its own flag and leaves the other two as they were; so at most one
  flag is set after it exactly when neither of the other two was set before it.
\<close>

theorem menu_setting_keeps_other_flags:
  "(startswith choice (lit ''faq_'') \<longrightarrow>
      pendingFaqTopic (new_user_data (button_router e uid choice ud)) = Some (PStr (drop 4 choice)) \<and>
      awaitingIp (new_user_data (button_router e uid choice ud)) = awaitingIp ud \<and>
      awaitingHash (new_user_data (button_router e uid choice ud)) = awaitingHash ud \<and>
      (flags_set (new_user_data (button_router e uid choice ud)) \<le> 1 \<longleftrightarrow>
         \<not> awaitingIp ud \<and> \<not> awaitingHash ud)) \<and>
   (pendingFaqTopic (new_user_data (button_router e uid (lit ''tool_ip'') ud)) = pendingFaqTopic ud \<and>
    awaitingIp (new_user_data (button_router e uid (lit ''tool_ip'') ud)) \<and>
    awaitingHash (new_user_data (button_router e uid (lit ''tool_ip'') ud)) = awaitingHash ud \<and>
    (flags_set (new_user_data (button_router e uid (lit ''tool_ip'') ud)) \<le> 1 \<longleftrightarrow>
       pendingFaqTopic ud = None \<and> \<not> awaitingHash ud)) \<and>
   (pendingFaqTopic (new_user_data (button_router e uid (lit ''tool_hash'') ud)) = pendingFaqTopic ud \<and>
    awaitingIp (new_user_data (button_router e uid (lit ''tool_hash'') ud)) = awaitingIp ud \<and>
    awaitingHash (new_user_data (button_router e uid (lit ''tool_hash'') ud)) \<and>
    (flags_set (new_user_data (button_router e uid (lit ''tool_hash'') ud)) \<le> 1 \<longleftrightarrow>
       pendingFaqTopic ud = None \<and> \<not> awaitingIp ud))"
  by (simp add: router_faq router_tool_ip router_tool_hash flag_simps flags_set_def)

theorem menu_setting_keeps_other_flags_witness:
  "startswith (lit ''faq_fraud'') (lit ''faq_'') \<and>
   pendingFaqTopic (new_user_data (button_router console_env 7 (lit ''faq_fraud'')
      [''awaiting_ip'' \<mapsto> PBool True])) = Some (PStr (lit ''fraud'')) \<and>
   awaitingIp (new_user_data (button_router console_env 7 (lit ''faq_fraud'')
      [''awaiting_ip'' \<mapsto> PBool True])) \<and>
   \<not> flags_set (new_user_data (button_router console_env 7 (lit ''faq_fraud'')
      [''awaiting_ip'' \<mapsto> PBool True])) \<le> 1"
proof -
  have h: "startswith (lit ''faq_fraud'') (lit ''faq_'')"
    by (simp add: startswith_def lit_def)
  have d: "drop 4 (lit ''faq_fraud'') = lit ''fraud''"
    by (simp add: lit_def)
  have a: "awaitingIp [''awaiting_ip'' \<mapsto> PBool True]"
    by (simp add: flag_simps)
  show ?thesis
    using h d a
      menu_setting_keeps_other_flags [where choice = "lit ''faq_fraud''" and e = console_env
        and uid = 7 and ud = "[''awaiting_ip'' \<mapsto> PBool True]"]
    by simp
qed

subsection \<open>C3: the order of the four paths\<close>

text \<open>
  C3. For every state of the user, \<open>handle_text\<close> takes exactly one path, in this order:
  a pending FAQ topic gives the FAQ path with the stripped text and the topic; else
  \<open>awaiting_ip\<close> gives the IP lookup; else \<open>awaiting_hash\<close> gives the hash check; else the
  general question. The path taken clears its own flag and leaves the other two flags as
  they were (a key \<open>awaiting_ip\<close> or \<open>awaiting_hash\<close> that is present with a false value
  is removed on the way, which changes no flag). The FAQ and general paths make one
  request to the FAQ backend, with the framed prompt and with the text itself; the IP
  path makes one request to the geolocation service; the hash path calls no backend.
\<close>

theorem handle_text_dispatch_priority:
  "(case pendingFaqTopic ud of
      Some topic \<Rightarrow>
        handle_text e uid m ud =
          \<lparr>new_user_data = ud(''faq_topic'' := None),
           effects = faq_run e uid (strip m) topic, raised = None\<rparr> \<and>
        pendingFaqTopic (new_user_data (handle_text e uid m ud)) = None \<and>
        awaitingIp (new_user_data (handle_text e uid m ud)) = awaitingIp ud \<and>
        awaitingHash (new_user_data (handle_text e uid m ud)) = awaitingHash ud
    | None \<Rightarrow>
        if awaitingIp ud then
          handle_text e uid m ud =
            \<lparr>new_user_data = ud(''awaiting_ip'' := None),
             effects = ip_run e uid (strip m), raised = None\<rparr> \<and>
          pendingFaqTopic (new_user_data (handle_text e uid m ud)) = None \<and>
          awaitingIp (new_user_data (handle_text e uid m ud)) = False \<and>
          awaitingHash (new_user_data (handle_text e uid m ud)) = awaitingHash ud
        else if awaitingHash ud then
          handle_text e uid m ud =
            \<lparr>new_user_data = ud(''awaiting_ip'' := None, ''awaiting_hash'' := None),
             effects = hash_run e uid (strip m), raised = None\<rparr> \<and>
          pendingFaqTopic (new_user_data (handle_text e uid m ud)) = None \<and>
          awaitingIp (new_user_data (handle_text e uid m ud)) = False \<and>
          awaitingHash (new_user_data (handle_text e uid m ud)) = False
        else
          handle_text e uid m ud =
            \<lparr>new_user_data = ud(''awaiting_ip'' := None, ''awaiting_hash'' := None),
             effects = general_run e uid (strip m), raised = None\<rparr> \<and>
          pendingFaqTopic (new_user_data (handle_text e uid m ud)) = None \<and>
          awaitingIp (new_user_data (handle_text e uid m ud)) = False \<and>
          awaitingHash (new_user_data (handle_text e uid m ud)) = False) \<and>
   filter is_backend_call (faq_run e uid (strip m) v) = [GeminiRequest (faq_prompt (strip m) v)] \<and>
   filter is_backend_call (ip_run e uid (strip m)) = [HttpGet (ip_api (strip m))] \<and>
   filter is_backend_call (hash_run e uid (strip m)) = [] \<and>
   filter is_backend_call (general_run e uid (strip m)) = [GeminiRequest (strip m)]"
proof -
  have a: "(case pendingFaqTopic ud of
      Some topic \<Rightarrow>
        handle_text e uid m ud =
          \<lparr>new_user_data = ud(''faq_topic'' := None),
           effects = faq_run e uid (strip m) topic, raised = None\<rparr> \<and>
        pendingFaqTopic (new_user_data (handle_text e uid m ud)) = None \<and>
        awaitingIp (new_user_data (handle_text e uid m ud)) = awaitingIp ud \<and>
        awaitingHash (new_user_data (handle_text e uid m ud)) = awaitingHash ud
    | None \<Rightarrow>
        if awaitingIp ud then
          handle_text e uid m ud =
            \<lparr>new_user_data = ud(''awaiting_ip'' := None),
             effects = ip_run e uid (strip m), raised = None\<rparr> \<and>
          pendingFaqTopic (new_user_data (handle_text e uid m ud)) = None \<and>
          awaitingIp (new_user_data (handle_text e uid m ud)) = False \<and>
          awaitingHash (new_user_data (handle_text e uid m ud)) = awaitingHash ud
        else if awaitingHash ud then
          handle_text e uid m ud =
            \<lparr>new_user_data = ud(''awaiting_ip'' := None, ''awaiting_hash'' := None),
             effects = hash_run e uid (strip m), raised = None\<rparr> \<and>
          pendingFaqTopic (new_user_data (handle_text e uid m ud)) = None \<and>
          awaitingIp (new_user_data (handle_text e uid m ud)) = False \<and>
          awaitingHash (new_user_data (handle_text e uid m ud)) = False
        else
          handle_text e uid m ud =
            \<lparr>new_user_data = ud(''awaiting_ip'' := None, ''awaiting_hash'' := None),
             effects = general_run e uid (strip m), raised = None\<rparr> \<and>
          pendingFaqTopic (new_user_data (handle_text e uid m ud)) = None \<and>
          awaitingIp (new_user_data (handle_text e uid m ud)) = False \<and>
          awaitingHash (new_user_data (handle_text e uid m ud)) = False)"
    by (rule text_cases [of ud])
       (simp_all add: pendingFaqTopic_def handle_text_faq handle_text_ip handle_text_hash
          handle_text_general flag_simps)
  from a show ?thesis by (simp add: backend_calls)
qed

subsection \<open>C2: a consumed flag and the next message\<close>




subsection \<open>C6: ask\_gemini always returns a string\<close>

text \<open>
  C6. For every question, topic and outcome of the FAQ backend, \<open>ask_gemini\<close> returns a
  string and passes on no exception of the backend: the stripped answer when the backend
  answers, and when it raises, the apology followed by the first 100 characters of the
  error text and three dots.
\<close>

theorem ask_gemini_never_raises:
  "(case generate_content e (faq_prompt question topic) of
      Inr text \<Rightarrow> fst (ask_gemini e question topic) = strip text
    | Inl err \<Rightarrow>
        fst (ask_gemini e question topic) =
          [0x2757, 0xFE0F] @ lit '' Sorry, FAQ service is temporarily unavailable. Error: '' @
          take 100 err @ lit ''...'' \<and>
        length (take 100 err) = min (length err) 100)"
  by (simp add: ask_gemini_def faq_unavailable_def Let_def split: sum.split)

theorem ask_gemini_never_raises_witness:
  "generate_content failing_env (faq_prompt (lit ''What is bail?'') (PStr (lit ''ipc''))) =
     Inl (replicate 150 120) \<and>
   fst (ask_gemini failing_env (lit ''What is bail?'') (PStr (lit ''ipc''))) =
     [0x2757, 0xFE0F] @ lit '' Sorry, FAQ service is temporarily unavailable. Error: '' @
     replicate 100 120 @ lit ''...''"
  using ask_gemini_never_raises [of failing_env "lit ''What is bail?''" "PStr (lit ''ipc'')"]
  by (simp add: failing_env_def console_env_def)

subsection \<open>C7: the IP lookup always gives a result\<close>

text \<open>
  C7. For every text the IP lookup gives a result string and nothing is raised to the
  router: when the request or the parsing of the reply raises, the result is the generic
  failure string with the error text; when the reply is an object whose status is not
  \<open>success\<close>, the result is the error prefix followed by the reply's message (the
  message itself when it is a string); any other fault inside the block (a reply that is
  not an object, a missing field) gives the generic failure string too. \<open>handle_text\<close>
  ends without an exception, and on the IP path its one reply is that result.
\<close>

theorem ip_lookup_never_raises:
  "(requests_get_json e (ip_api addr) = Inl err \<longrightarrow>
      fst (ip_lookup e addr) = [0x274C] @ lit '' Failed to fetch IP info: '' @ err) \<and>
   (requests_get_json e (ip_api addr) = Inr (JObj members) \<and>
    map_of members (lit ''status'') = Some status \<and> status \<noteq> JStr (lit ''success'') \<and>
    map_of members (lit ''message'') = Some message \<longrightarrow>
      fst (ip_lookup e addr) = [0x26A0, 0xFE0F] @ lit '' Error: '' @ format_json e message) \<and>
   format_json e (JStr s) = s \<and>
   (requests_get_json e (ip_api addr) = Inr res \<and> ip_result e res = Inl err \<longrightarrow>
      fst (ip_lookup e addr) = [0x274C] @ lit '' Failed to fetch IP info: '' @ err) \<and>
   raised (handle_text e uid m ud) = None \<and>
   (pendingFaqTopic ud = None \<and> awaitingIp ud \<longrightarrow>
      filter is_render (effects (handle_text e uid m ud)) =
        [ReplyText (fst (ip_lookup e (strip m))) None (Some back_to_tools)])"
proof -
  have a: "requests_get_json e (ip_api addr) = Inl err \<longrightarrow>
      fst (ip_lookup e addr) = [0x274C] @ lit '' Failed to fetch IP info: '' @ err"
    by (simp add: ip_lookup_def try_then_def ip_failed_def)
  have b: "requests_get_json e (ip_api addr) = Inr (JObj members) \<and>
    map_of members (lit ''status'') = Some status \<and> status \<noteq> JStr (lit ''success'') \<and>
    map_of members (lit ''message'') = Some message \<longrightarrow>
      fst (ip_lookup e addr) = [0x26A0, 0xFE0F] @ lit '' Error: '' @ format_json e message"
    by (simp add: ip_lookup_def try_then_def ip_result_def getitem_obj ip_error_def)
  have b2: "format_json e (JStr s) = s"
    by (simp add: format_json_def)
  have c: "requests_get_json e (ip_api addr) = Inr res \<and> ip_result e res = Inl err \<longrightarrow>
      fst (ip_lookup e addr) = [0x274C] @ lit '' Failed to fetch IP info: '' @ err"
    by (simp add: ip_lookup_def try_then_def ip_failed_def)
  have d: "raised (handle_text e uid m ud) = None"
    by (rule text_cases [of ud])
       (simp_all add: handle_text_faq handle_text_ip handle_text_hash handle_text_general)
  have f: "pendingFaqTopic ud = None \<and> awaitingIp ud \<longrightarrow>
      filter is_render (effects (handle_text e uid m ud)) =
        [ReplyText (fst (ip_lookup e (strip m))) None (Some back_to_tools)]"
    by (simp add: handle_text_renders)
  from a b b2 c d f show ?thesis by blast
qed

theorem ip_lookup_never_raises_witness:
  "requests_get_json console_env (ip_api (lit ''999.1.1.1'')) =
     Inr (JObj [(lit ''status'', JStr (lit ''fail'')),
                (lit ''message'', JStr (lit ''invalid query''))]) \<and>
   fst (ip_lookup console_env (lit ''999.1.1.1'')) =
     [0x26A0, 0xFE0F] @ lit '' Error: '' @ lit ''invalid query'' \<and>
   requests_get_json failing_env (ip_api (lit ''999.1.1.1'')) = Inl (lit ''timed out'') \<and>
   fst (ip_lookup failing_env (lit ''999.1.1.1'')) =
     [0x274C] @ lit '' Failed to fetch IP info: '' @ lit ''timed out'' \<and>
   requests_get_json (console_env\<lparr>requests_get_json := (\<lambda>url. Inr (JArr []))\<rparr>)
     (ip_api (lit ''999.1.1.1'')) = Inr (JArr []) \<and>
   ip_result (console_env\<lparr>requests_get_json := (\<lambda>url. Inr (JArr []))\<rparr>) (JArr []) =
     Inl (lit ''not subscriptable'') \<and>
   fst (ip_lookup (console_env\<lparr>requests_get_json := (\<lambda>url. Inr (JArr []))\<rparr>)
     (lit ''999.1.1.1'')) =
     [0x274C] @ lit '' Failed to fetch IP info: '' @ lit ''not subscriptable'' \<and>
   pendingFaqTopic [''awaiting_ip'' \<mapsto> PBool True] = None \<and>
   awaitingIp [''awaiting_ip'' \<mapsto> PBool True] \<and>
   filter is_render
     (effects (handle_text console_env 7 (lit ''999.1.1.1'') [''awaiting_ip'' \<mapsto> PBool True])) =
     [ReplyText (fst (ip_lookup console_env (strip (lit ''999.1.1.1'')))) None
        (Some back_to_tools)]"
proof -
  have r1: "requests_get_json console_env (ip_api (lit ''999.1.1.1'')) =
     Inr (JObj [(lit ''status'', JStr (lit ''fail'')),
                (lit ''message'', JStr (lit ''invalid query''))])"
    by (simp add: console_env_def)
  have m1: "map_of [(lit ''status'', JStr (lit ''fail'')),
                (lit ''message'', JStr (lit ''invalid query''))] (lit ''status'') =
            Some (JStr (lit ''fail''))"
    by simp
  have m2: "map_of [(lit ''status'', JStr (lit ''fail'')),
                (lit ''message'', JStr (lit ''invalid query''))] (lit ''message'') =
            Some (JStr (lit ''invalid query''))"
    by (simp add: lit_def)
  have df: "JStr (lit ''fail'') \<noteq> JStr (lit ''success'')"
    by (simp add: lit_def)
  have r2: "requests_get_json failing_env (ip_api (lit ''999.1.1.1'')) = Inl (lit ''timed out'')"
    by (simp add: failing_env_def console_env_def)
  have r3: "requests_get_json (console_env\<lparr>requests_get_json := (\<lambda>url. Inr (JArr []))\<rparr>)
     (ip_api (lit ''999.1.1.1'')) = Inr (JArr [])"
    by simp
  have r4: "ip_result (console_env\<lparr>requests_get_json := (\<lambda>url. Inr (JArr []))\<rparr>) (JArr []) =
     Inl (lit ''not subscriptable'')"
    by (simp add: ip_result_def try_then_def getitem_def console_env_def)
  have f: "pendingFaqTopic [''awaiting_ip'' \<mapsto> PBool True] = None"
    "awaitingIp [''awaiting_ip'' \<mapsto> PBool True]"
    by (simp_all add: pendingFaqTopic_def flag_simps)
  have p1: "fst (ip_lookup console_env (lit ''999.1.1.1'')) =
     [0x26A0, 0xFE0F] @ lit '' Error: '' @ format_json console_env (JStr (lit ''invalid query''))"
    and p4: "filter is_render
     (effects (handle_text console_env 7 (lit ''999.1.1.1'') [''awaiting_ip'' \<mapsto> PBool True])) =
     [ReplyText (fst (ip_lookup console_env (strip (lit ''999.1.1.1'')))) None
        (Some back_to_tools)]"
    and fj: "format_json console_env (JStr (lit ''invalid query'')) = lit ''invalid query''"
    using r1 m1 m2 df f
      ip_lookup_never_raises [where e = console_env and addr = "lit ''999.1.1.1''"
        and members = "[(lit ''status'', JStr (lit ''fail'')),
                (lit ''message'', JStr (lit ''invalid query''))]"
        and status = "JStr (lit ''fail'')" and message = "JStr (lit ''invalid query'')"
        and s = "lit ''invalid query''"
        and uid = 7 and m = "lit ''999.1.1.1''" and ud = "[''awaiting_ip'' \<mapsto> PBool True]"]
    by blast+
  have p2: "fst (ip_lookup failing_env (lit ''999.1.1.1'')) =
     [0x274C] @ lit '' Failed to fetch IP info: '' @ lit ''timed out''"
    using r2
      ip_lookup_never_raises [where e = failing_env and addr = "lit ''999.1.1.1''"
        and err = "lit ''timed out''"]
    by blast
  have p3: "fst (ip_lookup (console_env\<lparr>requests_get_json := (\<lambda>url. Inr (JArr []))\<rparr>)
     (lit ''999.1.1.1'')) =
     [0x274C] @ lit '' Failed to fetch IP info: '' @ lit ''not subscriptable''"
    using r3 r4
      ip_lookup_never_raises
        [where e = "console_env\<lparr>requests_get_json := (\<lambda>url. Inr (JArr []))\<rparr>"
        and addr = "lit ''999.1.1.1''" and res = "JArr []" and err = "lit ''not subscriptable''"]
    by blast
  from r1 r2 r3 r4 f p1 p2 p3 p4 fj show ?thesis by (simp only: simp_thms)
qed

subsection \<open>C8: request, then response, in the log\<close>

text \<open>
  C8 says that every free-text message appends exactly two log entries, the query and
  then the answer. \<open>log_interaction\<close> is best effort (lines 47--60): with a store whose
  push raises, the message appends nothing, and what is left of the two calls is two
  error lines that record neither the query nor the answer.
\<close>

theorem store_failure_counterexample:
  "pushed (effects (handle_text failing_env 7 (lit ''d41d8cd9'')
                      [''awaiting_hash'' \<mapsto> PBool True])) = [] \<and>
   filter is_log (effects (handle_text failing_env 7 (lit ''d41d8cd9'')
                      [''awaiting_hash'' \<mapsto> PBool True])) =
     [Print (LoggingError (lit ''unavailable'')), Print (LoggingError (lit ''unavailable''))]"
proof -
  have g: "pendingFaqTopic [''awaiting_hash'' \<mapsto> PBool True] = None"
    "\<not> awaitingIp [''awaiting_hash'' \<mapsto> PBool True]"
    "awaitingHash [''awaiting_hash'' \<mapsto> PBool True]"
    by (simp_all add: pendingFaqTopic_def awaitingIp_def awaitingHash_def pop_default_def)
  have l: "log_interaction failing_env uid act d = [Print (LoggingError (lit ''unavailable''))]"
    for uid act d
    by (simp add: log_interaction_def failing_env_def console_env_def)
  have f: "filter is_log (effects (handle_text failing_env 7 (lit ''d41d8cd9'')
                      [''awaiting_hash'' \<mapsto> PBool True])) =
     [Print (LoggingError (lit ''unavailable'')), Print (LoggingError (lit ''unavailable''))]"
    by (simp add: handle_text_logs g l)
  have p: "pushed (effects (handle_text failing_env 7 (lit ''d41d8cd9'')
                      [''awaiting_hash'' \<mapsto> PBool True])) = []"
    by (subst pushed_filter_log) (simp add: f)
  from p f show ?thesis by simp
qed

text \<open>
  C8, amended. For every free-text message, whichever path it takes, \<open>handle_text\<close> calls
  \<open>log_interaction\<close> exactly twice, first with the inbound query and then with the answer
  or result, and the run has no other log record. The entries the message appends are
  those of the two, in that order, that the store takes: both when the store was
  initialized and takes every push, none when no store was initialized, in which case
  the same two records are printed to the console, query first.
\<close>

theorem request_then_response_logged:
  "filter is_log (effects (handle_text e uid m ud)) =
     (case pendingFaqTopic ud of
        Some topic \<Rightarrow>
          log_interaction e uid ''faq_question''
            (Some [(''topic'', topic), (''question'', PStr (strip m))]) @
          log_interaction e uid ''faq_answer''
            (Some [(''topic'', topic), (''answer'', PStr (fst (ask_gemini e (strip m) topic)))])
      | None \<Rightarrow>
          if awaitingIp ud then
            log_interaction e uid ''ip_query'' (Some [(''ip'', PStr (strip m))]) @
            log_interaction e uid ''ip_result''
              (Some [(''result'', PStr (fst (ip_lookup e (strip m))))])
          else if awaitingHash ud then
            log_interaction e uid ''hash_query'' (Some [(''hash'', PStr (strip m))]) @
            log_interaction e uid ''hash_result'' (Some [(''result'', PStr hash_dummy)])
          else
            log_interaction e uid ''general_question'' (Some [(''question'', PStr (strip m))]) @
            log_interaction e uid ''general_answer''
              (Some [(''answer'', PStr (fst (ask_gemini e (strip m) PNone)))])) \<and>
   pushed (effects (handle_text e uid m ud)) =
     filter (accepted e)
       (case pendingFaqTopic ud of
          Some topic \<Rightarrow>
            [\<lparr>user_id = uid, action = ''faq_question'',
              data = [(''topic'', topic), (''question'', PStr (strip m))]\<rparr>,
             \<lparr>user_id = uid, action = ''faq_answer'',
              data = [(''topic'', topic),
                      (''answer'', PStr (fst (ask_gemini e (strip m) topic)))]\<rparr>]
        | None \<Rightarrow>
            if awaitingIp ud then
              [\<lparr>user_id = uid, action = ''ip_query'', data = [(''ip'', PStr (strip m))]\<rparr>,
               \<lparr>user_id = uid, action = ''ip_result'',
                data = [(''result'', PStr (fst (ip_lookup e (strip m))))]\<rparr>]
            else if awaitingHash ud then
              [\<lparr>user_id = uid, action = ''hash_query'', data = [(''hash'', PStr (strip m))]\<rparr>,
               \<lparr>user_id = uid, action = ''hash_result'',
                data = [(''result'', PStr hash_dummy)]\<rparr>]
            else
              [\<lparr>user_id = uid, action = ''general_question'',
                data = [(''question'', PStr (strip m))]\<rparr>,
               \<lparr>user_id = uid, action = ''general_answer'',
                data = [(''answer'', PStr (fst (ask_gemini e (strip m) PNone)))]\<rparr>]) \<and>
   log_lines (effects (handle_text e uid m ud)) =
     (if firebase_initialized e then []
      else
        (case pendingFaqTopic ud of
           Some topic \<Rightarrow>
             [(uid, ''faq_question'', [(''topic'', topic), (''question'', PStr (strip m))]),
              (uid, ''faq_answer'',
               [(''topic'', topic), (''answer'', PStr (fst (ask_gemini e (strip m) topic)))])]
         | None \<Rightarrow>
             if awaitingIp ud then
               [(uid, ''ip_query'', [(''ip'', PStr (strip m))]),
                (uid, ''ip_result'', [(''result'', PStr (fst (ip_lookup e (strip m))))])]
             else if awaitingHash ud then
               [(uid, ''hash_query'', [(''hash'', PStr (strip m))]),
                (uid, ''hash_result'', [(''result'', PStr hash_dummy)])]
             else
               [(uid, ''general_question'', [(''question'', PStr (strip m))]),
                (uid, ''general_answer'',
                 [(''answer'', PStr (fst (ask_gemini e (strip m) PNone)))])]))"
proof -
  have p: "pushed (effects (handle_text e uid m ud)) =
           pushed (filter is_log (effects (handle_text e uid m ud)))"
    by (rule pushed_filter_log)
  have l: "log_lines (effects (handle_text e uid m ud)) =
           log_lines (filter is_log (effects (handle_text e uid m ud)))"
    by (rule log_lines_filter_log)
  show ?thesis
    unfolding p l
    by (rule text_cases [of ud])
       (simp_all add: handle_text_logs pendingFaqTopic_def pushed_append log_lines_append
          pushed_log_interaction log_lines_log_interaction)
qed

theorem request_then_response_logged_witness:
  "pushed (effects (handle_text store_env 7 (lit '' d41d8cd9 '')
                      [''awaiting_hash'' \<mapsto> PBool True])) =
     [\<lparr>user_id = 7, action = ''hash_query'', data = [(''hash'', PStr (lit ''d41d8cd9''))]\<rparr>,
      \<lparr>user_id = 7, action = ''hash_result'', data = [(''result'', PStr hash_dummy)]\<rparr>] \<and>
   log_lines (effects (handle_text console_env 7 (lit '' d41d8cd9 '')
                      [''awaiting_hash'' \<mapsto> PBool True])) =
     [(7, ''hash_query'', [(''hash'', PStr (lit ''d41d8cd9''))]),
      (7, ''hash_result'', [(''result'', PStr hash_dummy)])]"
proof -
  have s: "strip (lit '' d41d8cd9 '') = lit ''d41d8cd9''"
    by (simp add: strip_def lit_def isspace_def)
  have g: "pendingFaqTopic [''awaiting_hash'' \<mapsto> PBool True] = None"
    "\<not> awaitingIp [''awaiting_hash'' \<mapsto> PBool True]"
    "awaitingHash [''awaiting_hash'' \<mapsto> PBool True]"
    by (simp_all add: pendingFaqTopic_def awaitingIp_def awaitingHash_def pop_default_def)
  have a: "accepted store_env x" "\<not> firebase_initialized console_env" for x
    by (simp_all add: accepted_def store_env_def console_env_def)
  show ?thesis
    using s g a
      request_then_response_logged [of store_env 7 "lit '' d41d8cd9 ''"
        "[''awaiting_hash'' \<mapsto> PBool True]"]
      request_then_response_logged [of console_env 7 "lit '' d41d8cd9 ''"
        "[''awaiting_hash'' \<mapsto> PBool True]"]
    by simp
qed

subsection \<open>C9: any token starting with faq\_\<close>

text \<open>
  C9. For every token that starts with \<open>faq_\<close> (not only the three of the FAQ menu),
  \<open>button_router\<close> sets \<open>faq_topic\<close> to what follows the first underscore, which is the
  token without its first four characters, and raises nothing; the next free-text message
  then takes the FAQ path with that topic. For the token \<open>faq_\<close> the topic is the empty
  string, which is a false value, and the next message still takes the FAQ path, since
  \<open>handle_text\<close> asks whether the key is there.
\<close>

theorem faq_prefix_sets_topic:
  "(startswith choice (lit ''faq_'') \<longrightarrow>
      split_1 95 choice = [lit ''faq'', drop 4 choice] \<and>
      subscript (split_1 95 choice) 1 = Inr (drop 4 choice) \<and>
      new_user_data (button_router e uid choice ud) = ud(''faq_topic'' \<mapsto> PStr (drop 4 choice)) \<and>
      raised (button_router e uid choice ud) = None \<and>
      effects (handle_text e uid m (new_user_data (button_router e uid choice ud))) =
        faq_run e uid (strip m) (PStr (drop 4 choice))) \<and>
   new_user_data (button_router e uid (lit ''faq_'') ud) = ud(''faq_topic'' \<mapsto> PStr []) \<and>
   \<not> truthy (PStr []) \<and>
   effects (handle_text e uid m (new_user_data (button_router e uid (lit ''faq_'') ud))) =
     faq_run e uid (strip m) (PStr [])"
proof -
  have h: "startswith (lit ''faq_'') (lit ''faq_'')"
    by (simp add: startswith_def)
  have d: "drop 4 (lit ''faq_'') = []"
    by (simp add: lit_def)
  have a: "startswith choice (lit ''faq_'') \<longrightarrow>
      split_1 95 choice = [lit ''faq'', drop 4 choice] \<and>
      subscript (split_1 95 choice) 1 = Inr (drop 4 choice) \<and>
      new_user_data (button_router e uid choice ud) = ud(''faq_topic'' \<mapsto> PStr (drop 4 choice)) \<and>
      raised (button_router e uid choice ud) = None \<and>
      effects (handle_text e uid m (new_user_data (button_router e uid choice ud))) =
        faq_run e uid (strip m) (PStr (drop 4 choice))"
    by (simp add: faq_prefix_split subscript_def router_faq handle_text_faq)
  have b: "new_user_data (button_router e uid (lit ''faq_'') ud) = ud(''faq_topic'' \<mapsto> PStr [])"
    by (simp add: router_faq [OF h] d)
  have c: "effects (handle_text e uid m (new_user_data (button_router e uid (lit ''faq_'') ud))) =
     faq_run e uid (strip m) (PStr [])"
    by (simp add: b handle_text_faq)
  have t: "\<not> truthy (PStr [])" by simp
  from a b c t show ?thesis by blast
qed

theorem faq_prefix_sets_topic_witness:
  "startswith (lit ''faq_tax_law'') (lit ''faq_'') \<and>
   split_1 95 (lit ''faq_tax_law'') = [lit ''faq'', lit ''tax_law''] \<and>
   new_user_data (button_router console_env 7 (lit ''faq_tax_law'') Map.empty) =
     [''faq_topic'' \<mapsto> PStr (lit ''tax_law'')]"
proof -
  have h: "startswith (lit ''faq_tax_law'') (lit ''faq_'')"
    by (simp add: startswith_def lit_def)
  have d: "drop 4 (lit ''faq_tax_law'') = lit ''tax_law''"
    by (simp add: lit_def)
  show ?thesis
    using h d
      faq_prefix_sets_topic [where choice = "lit ''faq_tax_law''" and e = console_env
        and uid = 7 and ud = Map.empty]
    by simp
qed

end
